theory Spec2Isabelle
  imports Main
begin

section \<open>The input state of the calculator\<close>

text \<open>
  \<^verbatim>\<open>CalculatorState\<close> (app.py, lines 71-87) is a dataclass with three text fields.
  Its methods mutate the object in place and return nothing; here each method takes the
  state and returns the updated one. A Python \<^verbatim>\<open>str\<close> is modelled as a list of
  characters, one list element per character of the text.
\<close>

record CalculatorState =
  expression :: string
  result :: string
  error :: string

text \<open>The dataclass defaults: what \<^verbatim>\<open>CalculatorState()\<close> creates.\<close>

definition new_state :: CalculatorState where
  "new_state = \<lparr>expression = '''', result = ''0'', error = ''''\<rparr>"

text \<open>\<^verbatim>\<open>self.expression += value\<close>\<close>

definition append_value :: "CalculatorState \<Rightarrow> string \<Rightarrow> CalculatorState" where
  "append_value s v = s\<lparr>expression := expression s @ v\<rparr>"

definition clear :: "CalculatorState \<Rightarrow> CalculatorState" where
  "clear s = s\<lparr>expression := '''', result := ''0'', error := ''''\<rparr>"

text \<open>
  \<^verbatim>\<open>if self.expression: self.expression = self.expression[:-1]\<close>: an empty text is
  falsy, and the slice \<^verbatim>\<open>[:-1]\<close> of a non-empty text drops its last character.
\<close>

definition backspace :: "CalculatorState \<Rightarrow> CalculatorState" where
  "backspace s = (if expression s \<noteq> [] then s\<lparr>expression := butlast (expression s)\<rparr> else s)"


section \<open>Properties of the input state\<close>

text \<open>
  C9. From a freshly created state, appending "1", "+" and "2" gives the expression text
  "1+2"; a backspace then gives "1+"; a clear then resets the state to expression "",
  result "0" and error "".
\<close>

theorem state_flow:
  "expression (append_value (append_value (append_value new_state ''1'') ''+'') ''2'') = ''1+2''
   \<and> expression (backspace (append_value (append_value (append_value new_state ''1'') ''+'') ''2'')) = ''1+''
   \<and> clear (backspace (append_value (append_value (append_value new_state ''1'') ''+'') ''2''))
       = \<lparr>expression = '''', result = ''0'', error = ''''\<rparr>"
  by (simp add: new_state_def append_value_def backspace_def clear_def)

text \<open>
  C10. On a state whose expression text is empty, backspace returns the state unchanged
  in all three fields (the model's backspace is total: no error is possible); and on
  every state, append and backspace leave the result and error fields as they were.
\<close>

theorem backspace_append_frame:
  "(expression s = [] \<longrightarrow> backspace s = s)
   \<and> result (append_value s v) = result s \<and> error (append_value s v) = error s
   \<and> result (backspace s) = result s \<and> error (backspace s) = error s"
  by (simp add: append_value_def backspace_def)

theorem backspace_append_frame_witness:
  "expression new_state = [] \<and> backspace new_state = new_state
   \<and> result (append_value new_state ''7'') = ''0'' \<and> error (append_value new_state ''7'') = ''''
   \<and> result (backspace (append_value new_state ''7'')) = ''0''
   \<and> error (backspace (append_value new_state ''7'')) = ''''"
  using backspace_append_frame [of new_state "''7''"]
    backspace_append_frame [of "append_value new_state ''7''" "''7''"]
  by (simp add: new_state_def append_value_def)

end
